theory Spec2Isabelle
  imports
    Complex_Main
    "HOL-Library.AList"
    "HOL-Library.Multiset"
    "HOL-Library.Sublist"
    "HOL-Library.Char_ord"
    "HOL-Library.List_Lexorder"
    "HOL-Library.Product_Lexorder"
begin

section \<open>Data model\<close>

text \<open>
  The program (\<^verbatim>\<open>streamlit_app.py\<close>) works on pandas data frames read from an uploaded
  CSV file. A frame is what \<^verbatim>\<open>pd.read_csv\<close> returns, so a cell is one of the scalars
  that pandas holds: an integer (a column of integers), a float (a column of decimals, or
  of integers some of which are blank: \<^verbatim>\<open>1\<close> is then held as \<^verbatim>\<open>1.0\<close>), a boolean, a
  string, or the missing value \<open>NaN\<close> that stands for a blank field. \<open>FloatV q\<close> is the
  finite float whose exact value is the rational \<open>q\<close>; the infinite floats and negative
  zero are outside the model.

  In a frame that \<^verbatim>\<open>read_csv\<close> returns for a file it reads in one piece, the cells of
  one column are of one kind (but for missing values among floats or strings, and booleans
  among strings), so that no column holds two different cells that Python finds equal,
  such as \<^verbatim>\<open>1\<close> and \<^verbatim>\<open>1.0\<close>. The predicate \<open>plain_column\<close> below says so of a
  column; on such a column equality of cells is the equality by which pandas groups keys
  and removes duplicates.

  A row is an association list from column label to cell, in column order; a frame is its
  list of column labels together with its rows in positional order. Assigning a column
  (\<^verbatim>\<open>df[c] = ...\<close>) overwrites the column in place when the label exists and appends it
  otherwise, which is what \<open>AList.update\<close> does on each row.
\<close>

datatype cell = NaN | IntV int | FloatV rat | BoolV bool | StrV string

type_synonym row = "(string \<times> cell) list"

record dataframe =
  columns :: "string list"
  rows :: "row list"

datatype exn =
    KeyError string
  | IndexError
  | TypeError
  | AttributeError
  | OSError string
  | ParserError string

text \<open>
  The table of counts that \<^verbatim>\<open>pivot_table\<close> returns: its column labels, and its rows
  in order, each with its index label (the group) and its cells under their column
  labels. A cell is a count, or missing (\<open>None\<close>).
\<close>

type_synonym 'l crosstab_row = "cell \<times> ('l \<times> nat option) list"

record 'l crosstab =
  tab_columns :: "'l list"
  tab_rows :: "'l crosstab_row list"

text \<open>
  What the user interface is asked to show, in the order of the calls: \<open>Error\<close> is
  \<^verbatim>\<open>st.error\<close> with a literal message, \<open>ErrorExc p e\<close> is
  \<^verbatim>\<open>st.error(f"p{str(e)}")\<close> for a caught exception \<open>e\<close>.
\<close>

datatype ui =
    Title string
  | Warning string
  | Error string
  | ErrorExc string exn
  | SidebarHeader string
  | Subheader string
  | Selectbox string "cell list"
  | Columns nat
  | ImageW string
  | TableW "(string \<times> cell) list"
  | DataframeW "string crosstab"

record uploaded_file =
  name :: string
  buffer :: string

text \<open>
  The environment: the outcome of the operating system and library calls the program
  makes. \<open>mkdtemp\<close> is the directory \<^verbatim>\<open>tempfile.mkdtemp()\<close> returns, or the message of
  the error it raises; \<open>makedirs_error\<close>, \<open>write_error\<close> and \<open>image_error\<close> give, for a
  path, the message of the error that \<^verbatim>\<open>os.makedirs\<close>, writing the file, and
  \<^verbatim>\<open>Image.open\<close> raise there, if any. \<open>sort_values\<close> is the sort pandas uses for
  \<^verbatim>\<open>sort_values(..., ascending=False)\<close>; its order among equal keys is not specified,
  so only its contract \<open>sorts_descending\<close> is known. \<open>float_repr\<close> is the text Python
  prints for a float that is not a whole number below \<open>10 ^ 16\<close> (the shortest decimal
  that reads back as the same float).
\<close>

record env =
  mkdtemp :: "string + string"
  makedirs_error :: "string \<Rightarrow> string option"
  write_error :: "string \<Rightarrow> string option"
  image_error :: "string \<Rightarrow> string option"
  sort_values :: "(cell crosstab_row \<Rightarrow> nat) \<Rightarrow> cell crosstab_row list \<Rightarrow> cell crosstab_row list"
  float_repr :: "rat \<Rightarrow> string"


subsection \<open>Python and pandas primitives\<close>

definition digit_char :: "nat \<Rightarrow> char" where
  "digit_char d = ''0123456789'' ! d"

fun digits :: "nat \<Rightarrow> string" where
  "digits n = (if n < 10 then [digit_char n] else digits (n div 10) @ [digit_char (n mod 10)])"

declare digits.simps [simp del]

definition py_int :: "int \<Rightarrow> string" where
  "py_int i = (if i < 0 then CHR ''-'' # digits (nat (- i)) else digits (nat i))"

text \<open>
  \<^verbatim>\<open>f"{x}"\<close>: the decimal numeral of an integer; for a float that is a whole number
  below \<open>10 ^ 16\<close> that numeral followed by \<^verbatim>\<open>.0\<close>, and for any other float the text
  \<open>float_repr\<close>; \<^verbatim>\<open>True\<close> or \<^verbatim>\<open>False\<close>; the string itself; \<^verbatim>\<open>nan\<close>.
\<close>

fun py_str :: "env \<Rightarrow> cell \<Rightarrow> string" where
  "py_str e NaN = ''nan''"
| "py_str e (IntV i) = py_int i"
| "py_str e (FloatV q) =
     (if of_int \<lfloor>q\<rfloor> = q \<and> \<bar>q\<bar> < 10 ^ 16 then py_int \<lfloor>q\<rfloor> @ ''.0'' else float_repr e q)"
| "py_str e (BoolV b) = (if b then ''True'' else ''False'')"
| "py_str e (StrV s) = s"

text \<open>\<^verbatim>\<open>pd.isna\<close>.\<close>

fun isna :: "cell \<Rightarrow> bool" where
  "isna NaN = True"
| "isna _ = False"

text \<open>
  The value of a number (a boolean is the integer 0 or 1), and \<^verbatim>\<open>==\<close> on scalars, which
  is also the elementwise \<^verbatim>\<open>==\<close> of a column with a scalar: numbers are compared by
  value, strings with strings, a string is never equal to a number, and a missing value is
  equal to nothing, not even to itself.
\<close>

fun num_value :: "cell \<Rightarrow> rat option" where
  "num_value (IntV i) = Some (of_int i)"
| "num_value (FloatV q) = Some q"
| "num_value (BoolV b) = Some (if b then 1 else 0)"
| "num_value _ = None"

fun py_eq :: "cell \<Rightarrow> cell \<Rightarrow> bool" where
  "py_eq (StrV s) (StrV t) = (s = t)"
| "py_eq a b =
     (case (num_value a, num_value b) of (Some x, Some y) \<Rightarrow> x = y | _ \<Rightarrow> False)"


text \<open>\<^verbatim>\<open>row[c]\<close> for a label of the frame; a row that lacks the label reads as missing.\<close>

definition cell_at :: "row \<Rightarrow> string \<Rightarrow> cell" where
  "cell_at r c = (case map_of r c of Some v \<Rightarrow> v | None \<Rightarrow> NaN)"

text \<open>\<^verbatim>\<open>df[c] = df.apply(f)\<close>: assign column \<open>c\<close>, row by row.\<close>

definition assign_column :: "string \<Rightarrow> (row \<Rightarrow> cell) \<Rightarrow> dataframe \<Rightarrow> dataframe" where
  "assign_column c f df =
     \<lparr>columns = (if c \<in> set (columns df) then columns df else columns df @ [c]),
      rows = map (\<lambda>r. AList.update c (f r) r) (rows df)\<rparr>"

text \<open>\<^verbatim>\<open>df[mask]\<close>: boolean indexing keeps the rows where the mask holds, in order.\<close>

definition select_rows :: "(row \<Rightarrow> bool) \<Rightarrow> dataframe \<Rightarrow> dataframe" where
  "select_rows p df = \<lparr>columns = columns df, rows = filter p (rows df)\<rparr>"

text \<open>\<^verbatim>\<open>Series.isin(names)\<close> on a column of strings.\<close>

fun isin :: "cell \<Rightarrow> string list \<Rightarrow> bool" where
  "isin (StrV s) names = (s \<in> set names)"
| "isin _ names = False"

text \<open>\<^verbatim>\<open>os.path.join(a, b)\<close> on POSIX: an absolute \<open>b\<close> replaces \<open>a\<close>.\<close>

definition os_path_join :: "string \<Rightarrow> string \<Rightarrow> string" where
  "os_path_join a b =
     (if b \<noteq> [] \<and> hd b = CHR ''/'' then b
      else if a = [] \<or> last a = CHR ''/'' then a @ b
      else a @ ''/'' @ b)"



text \<open>
  The order pandas and \<^verbatim>\<open>sorted\<close> put values of one kind in: numbers by value,
  strings by code point. Numbers are put before strings and missing values last.
\<close>

fun cell_key :: "cell \<Rightarrow> nat \<times> rat \<times> string" where
  "cell_key (IntV i) = (0, of_int i, [])"
| "cell_key (FloatV q) = (0, q, [])"
| "cell_key (BoolV b) = (0, if b then 1 else 0, [])"
| "cell_key (StrV s) = (1, 0, s)"
| "cell_key NaN = (2, 0, [])"

definition sorted_unique :: "cell list \<Rightarrow> cell list" where
  "sorted_unique xs = sort_key cell_key (remdups xs)"




section \<open>Ingest: \<^verbatim>\<open>process_uploaded_files\<close>\<close>

text \<open>
  The loop that saves the uploaded images. The state is the list of files written so far
  and the list \<^verbatim>\<open>uploaded_image_names\<close>; an error raised by a write leaves the loop
  (and the surrounding \<^verbatim>\<open>try\<close> block) at once.
\<close>

fun save_images ::
  "env \<Rightarrow> string \<Rightarrow> uploaded_file list \<Rightarrow> (string \<times> string) list \<Rightarrow> string list
     \<Rightarrow> exn option \<times> (string \<times> string) list \<times> string list" where
  "save_images e images_path [] fs names = (None, fs, names)"
| "save_images e images_path (uploaded # rest) fs names =
     (let file_path = os_path_join images_path (name uploaded) in
      (case write_error e file_path of
        Some msg \<Rightarrow> (Some (OSError msg), fs, names)
      | None \<Rightarrow>
          save_images e images_path rest (fs @ [(file_path, buffer uploaded)])
            (names @ [name uploaded])))"

record ingest =
  messages :: "ui list"
  written :: "(string \<times> string) list"
  dataset :: "dataframe option"

definition processing_failed :: "exn \<Rightarrow> (string \<times> string) list \<Rightarrow> ingest" where
  "processing_failed e fs =
     \<lparr>messages = [ErrorExc ''Error processing files: '' e], written = fs, dataset = None\<rparr>"

text \<open>Lines 40 and 43: \<^verbatim>\<open>f"{x}.png"\<close> for the identifier \<^verbatim>\<open>x\<close> of a row.\<close>

definition expected_name :: "env \<Rightarrow> row \<Rightarrow> string" where
  "expected_name e r = py_str e (cell_at r ''ad_id'') @ ''.png''"

text \<open>
  The uploaded CSV is given by what \<^verbatim>\<open>pd.read_csv\<close> makes of it: the frame, or the
  message of the error it raises.
\<close>

definition process_uploaded_files ::
  "env \<Rightarrow> string + dataframe \<Rightarrow> uploaded_file list \<Rightarrow> ingest" where
  "process_uploaded_files e uploaded_csv uploaded_images =
     (case mkdtemp e of
        Inl msg \<Rightarrow> processing_failed (OSError msg) []
      | Inr temp_dir \<Rightarrow>
          let images_path = os_path_join temp_dir ''images'' in
          (case makedirs_error e images_path of
            Some msg \<Rightarrow> processing_failed (OSError msg) []
          | None \<Rightarrow>
             (case save_images e images_path uploaded_images [] [] of
                (Some x, fs, uploaded_image_names) \<Rightarrow> processing_failed x fs
              | (None, fs, uploaded_image_names) \<Rightarrow>
                 (case uploaded_csv of
                    Inl msg \<Rightarrow> processing_failed (ParserError msg) fs
                  | Inr df \<Rightarrow>
                      if ''ad_id'' \<notin> set (columns df) then
                        \<lparr>messages =
                           [Error ''The uploaded CSV file must contain an 'ad_id' column.''],
                         written = fs, dataset = None\<rparr>
                      else
                        let df1 = assign_column ''image_name''
                                    (\<lambda>r. StrV (expected_name e r)) df;
                            df2 = select_rows
                                    (\<lambda>r. isin (cell_at r ''image_name'') uploaded_image_names) df1;
                            df3 = assign_column ''image_path''
                                    (\<lambda>r. StrV (os_path_join images_path (expected_name e r))) df2
                        in \<lparr>messages = [], written = fs, dataset = Some df3\<rparr>))))"

section \<open>Views\<close>








section \<open>Aggregate: \<^verbatim>\<open>display_cluster_distribution\<close>\<close>





text \<open>\<^verbatim>\<open>f'Cluster {col}' if col != 'Total' else col\<close>.\<close>

definition column_name :: "env \<Rightarrow> cell \<Rightarrow> string" where
  "column_name e col =
     (if col \<noteq> StrV ''Total'' then ''Cluster '' @ py_str e col else py_str e col)"




section \<open>The page: \<^verbatim>\<open>main\<close>\<close>







section \<open>Vocabulary of the distribution table\<close>

text \<open>
  Names for the parts of the table that \<^verbatim>\<open>display_cluster_distribution\<close> builds, used
  to state its properties. The rows that the table counts are those in which neither
  \<^verbatim>\<open>pagename\<close> nor \<^verbatim>\<open>cluster\<close> is missing; its groups and clusters are the values
  of these rows; the count of a pair and the total of a group are numbers of counted rows
  whose \<^verbatim>\<open>ad_id\<close> is not missing. \<open>table_row\<close> is the row of a group once the total
  is assigned, \<open>renamed\<close> the same row under the labels that are shown.
\<close>

definition counted_rows :: "dataframe \<Rightarrow> row list" where
  "counted_rows df =
     filter (\<lambda>r. \<not> isna (cell_at r ''pagename'') \<and> \<not> isna (cell_at r ''cluster'')) (rows df)"


definition cluster_labels :: "dataframe \<Rightarrow> cell list" where
  "cluster_labels df = sorted_unique (map (\<lambda>r. cell_at r ''cluster'') (counted_rows df))"

definition ads_of :: "dataframe \<Rightarrow> cell \<Rightarrow> cell \<Rightarrow> nat" where
  "ads_of df g c =
     length (filter (\<lambda>r. cell_at r ''pagename'' = g \<and> cell_at r ''cluster'' = c
                         \<and> \<not> isna (cell_at r ''ad_id'')) (counted_rows df))"

definition group_total :: "dataframe \<Rightarrow> cell \<Rightarrow> nat" where
  "group_total df g =
     length (filter (\<lambda>r. cell_at r ''pagename'' = g \<and> \<not> isna (cell_at r ''ad_id''))
               (counted_rows df))"

definition table_row :: "dataframe \<Rightarrow> cell \<Rightarrow> cell crosstab_row" where
  "table_row df g =
     (g, AList.update (StrV ''Total'') (Some (group_total df g))
           (map (\<lambda>c. (c, Some (ads_of df g c))) (cluster_labels df)))"

definition renamed :: "env \<Rightarrow> cell crosstab_row \<Rightarrow> string crosstab_row" where
  "renamed e r = (fst r, map (\<lambda>lv. (column_name e (fst lv), snd lv)) (snd r))"

section \<open>Example inputs\<close>

text \<open>
  Concrete inputs on which the theorems below are exercised. \<open>example_env\<close> is an
  environment in which no call fails; its sort does what pandas does for a descending
  order (reverse the rows, sort them in ascending order, reverse the result) with a stable
  sort, so that rows of equal keys keep their order; and it prints the two floats
  \<^verbatim>\<open>2.5\<close> and \<^verbatim>\<open>0.5\<close>.
  \<open>example_csv\<close> and \<open>example_images\<close> are the scenario of the specification: three
  rows, images uploaded for the first two.
\<close>

definition example_env :: env where
  "example_env =
     \<lparr>mkdtemp = Inr ''/tmp/t'', makedirs_error = (\<lambda>_. None), write_error = (\<lambda>_. None),
      image_error = (\<lambda>_. None), sort_values = (\<lambda>key xs. rev (sort_key key (rev xs))),
      float_repr = (\<lambda>q. if q = 5 / 2 then ''2.5'' else ''0.5'')\<rparr>"

definition example_csv :: dataframe where
  "example_csv =
     \<lparr>columns = [''ad_id'', ''pagename'', ''cluster''],
      rows = [[(''ad_id'', IntV 1), (''pagename'', StrV ''A''), (''cluster'', IntV 0)],
              [(''ad_id'', IntV 2), (''pagename'', StrV ''A''), (''cluster'', IntV 0)],
              [(''ad_id'', IntV 3), (''pagename'', StrV ''B''), (''cluster'', IntV 1)]]\<rparr>"

definition example_images :: "uploaded_file list" where
  "example_images =
     [\<lparr>name = ''1.png'', buffer = ''x''\<rparr>, \<lparr>name = ''2.png'', buffer = ''y''\<rparr>]"








text \<open>
  A CSV whose identifiers are \<^verbatim>\<open>1\<close> and a blank field: pandas reads the column as
  floats, so the first identifier is held as \<^verbatim>\<open>1.0\<close>.
\<close>

definition float_ids_csv :: dataframe where
  "float_ids_csv =
     \<lparr>columns = [''ad_id'', ''pagename''],
      rows = [[(''ad_id'', FloatV 1), (''pagename'', StrV ''A'')],
              [(''ad_id'', NaN), (''pagename'', StrV ''B'')]]\<rparr>"

text \<open>
  Two datasets for the distribution table, each with the CSV it is joined from: in the
  first the cluster of brand \<^verbatim>\<open>A\<close> is a blank field, in the second one cluster is
  named \<^verbatim>\<open>Total\<close>.
\<close>

definition three_images :: "uploaded_file list" where
  "three_images =
     [\<lparr>name = ''1.png'', buffer = ''x''\<rparr>, \<lparr>name = ''2.png'', buffer = ''y''\<rparr>,
      \<lparr>name = ''3.png'', buffer = ''z''\<rparr>]"

definition blank_cluster_csv :: dataframe where
  "blank_cluster_csv =
     \<lparr>columns = [''ad_id'', ''pagename'', ''cluster''],
      rows = [[(''ad_id'', IntV 1), (''pagename'', StrV ''A''), (''cluster'', NaN)],
              [(''ad_id'', IntV 2), (''pagename'', StrV ''B''), (''cluster'', StrV ''c0'')]]\<rparr>"

definition blank_cluster_joined :: dataframe where
  "blank_cluster_joined =
     \<lparr>columns = [''ad_id'', ''pagename'', ''cluster'', ''image_name'', ''image_path''],
      rows = [[(''ad_id'', IntV 1), (''pagename'', StrV ''A''), (''cluster'', NaN),
               (''image_name'', StrV ''1.png''), (''image_path'', StrV ''/tmp/t/images/1.png'')],
              [(''ad_id'', IntV 2), (''pagename'', StrV ''B''), (''cluster'', StrV ''c0''),
               (''image_name'', StrV ''2.png''), (''image_path'', StrV ''/tmp/t/images/2.png'')]]\<rparr>"

definition total_cluster_csv :: dataframe where
  "total_cluster_csv =
     \<lparr>columns = [''ad_id'', ''pagename'', ''cluster''],
      rows = [[(''ad_id'', IntV 1), (''pagename'', StrV ''A''), (''cluster'', StrV ''x'')],
              [(''ad_id'', IntV 2), (''pagename'', StrV ''A''), (''cluster'', StrV ''Total'')],
              [(''ad_id'', IntV 3), (''pagename'', StrV ''B''), (''cluster'', StrV ''x'')]]\<rparr>"

definition total_cluster_joined :: dataframe where
  "total_cluster_joined =
     \<lparr>columns = [''ad_id'', ''pagename'', ''cluster'', ''image_name'', ''image_path''],
      rows = [[(''ad_id'', IntV 1), (''pagename'', StrV ''A''), (''cluster'', StrV ''x''),
               (''image_name'', StrV ''1.png''), (''image_path'', StrV ''/tmp/t/images/1.png'')],
              [(''ad_id'', IntV 2), (''pagename'', StrV ''A''), (''cluster'', StrV ''Total''),
               (''image_name'', StrV ''2.png''), (''image_path'', StrV ''/tmp/t/images/2.png'')],
              [(''ad_id'', IntV 3), (''pagename'', StrV ''B''), (''cluster'', StrV ''x''),
               (''image_name'', StrV ''3.png''), (''image_path'', StrV ''/tmp/t/images/3.png'')]]\<rparr>"

section \<open>Properties of the ingest stage\<close>

lemma cell_at_update:
  "cell_at (AList.update k v r) c = (if c = k then v else cell_at r c)"
  by (simp add: cell_at_def update_conv')

lemma expected_name_update:
  "k \<noteq> ''ad_id'' \<Longrightarrow> expected_name e (AList.update k v r) = expected_name e r"
  by (simp add: expected_name_def cell_at_update)

lemma suffix_os_path_join: "suffix b (os_path_join a b)"
  by (auto simp: os_path_join_def suffix_def)

lemma save_images_all_written:
  "\<forall>u \<in> set imgs. write_error e (os_path_join p (name u)) = None \<Longrightarrow>
   save_images e p imgs fs names =
     (None, fs @ map (\<lambda>u. (os_path_join p (name u), buffer u)) imgs, names @ map name imgs)"
  by (induction imgs arbitrary: fs names) simp_all



text \<open>The result of a run in which no call fails and the CSV has an \<^verbatim>\<open>ad_id\<close> column.\<close>

lemma process_ok:
  assumes "mkdtemp e = Inr temp_dir"
    and "makedirs_error e (os_path_join temp_dir ''images'') = None"
    and "\<forall>u \<in> set imgs.
           write_error e (os_path_join (os_path_join temp_dir ''images'') (name u)) = None"
    and "''ad_id'' \<in> set (columns df)"
  shows "process_uploaded_files e (Inr df) imgs =
    \<lparr>messages = [],
     written = map (\<lambda>u. (os_path_join (os_path_join temp_dir ''images'') (name u), buffer u))
                 imgs,
     dataset = Some
       \<lparr>columns = columns df
                  @ filter (\<lambda>c. c \<notin> set (columns df)) [''image_name'', ''image_path''],
        rows = map (\<lambda>r. AList.update ''image_path''
                       (StrV (os_path_join (os_path_join temp_dir ''images'')
                                (expected_name e r)))
                       (AList.update ''image_name'' (StrV (expected_name e r)) r))
                 (filter (\<lambda>r. expected_name e r \<in> name ` set imgs) (rows df))\<rparr>\<rparr>"
  using assms
  by (auto simp: process_uploaded_files_def save_images_all_written Let_def assign_column_def
      select_rows_def filter_map o_def cell_at_update expected_name_update)


text \<open>
  Claim C1. For every CSV table with an \<^verbatim>\<open>ad_id\<close> column and every list of uploaded
  images, when the temporary directory can be made and every image can be written,
  \<^verbatim>\<open>process_uploaded_files\<close> returns a dataset whose rows are, one for one and in the
  same order, exactly the CSV rows whose expected file name \<^verbatim>\<open>{ad_id}.png\<close> is the name
  of an uploaded file: no such row is dropped and no other row is kept. Each row of the
  dataset has an \<^verbatim>\<open>image_path\<close> that ends in its \<^verbatim>\<open>{ad_id}.png\<close>. The expected
  file name is the one line 40 computes: Python's text for the identifier as pandas holds
  it (\<open>expected_name\<close>), so \<^verbatim>\<open>1.0.png\<close> for an identifier held as the float
  \<^verbatim>\<open>1.0\<close>.
\<close>

theorem join_keeps_exactly_the_uploaded_rows:
  assumes "mkdtemp e = Inr temp_dir"
    and "makedirs_error e (os_path_join temp_dir ''images'') = None"
    and "\<forall>u \<in> set uploaded_images.
           write_error e (os_path_join (os_path_join temp_dir ''images'') (name u)) = None"
    and "''ad_id'' \<in> set (columns df)"
  shows "\<exists>joined.
      dataset (process_uploaded_files e (Inr df) uploaded_images) = Some joined
    \<and> list_all2 (\<lambda>r r'. \<forall>c. c \<noteq> ''image_name'' \<and> c \<noteq> ''image_path''
                          \<longrightarrow> map_of r' c = map_of r c)
        (filter (\<lambda>r. expected_name e r \<in> name ` set uploaded_images) (rows df))
        (rows joined)
    \<and> (\<forall>r' \<in> set (rows joined).
          expected_name e r' \<in> name ` set uploaded_images
        \<and> (\<exists>p. map_of r' ''image_path'' = Some (StrV p) \<and> suffix (expected_name e r') p))"
proof -
  let ?ip = "os_path_join temp_dir ''images''"
  let ?enrich = "\<lambda>r. AList.update ''image_path'' (StrV (os_path_join ?ip (expected_name e r)))
                       (AList.update ''image_name'' (StrV (expected_name e r)) r)"
  let ?kept = "filter (\<lambda>r. expected_name e r \<in> name ` set uploaded_images) (rows df)"
  let ?joined = "\<lparr>columns = columns df
                     @ filter (\<lambda>c. c \<notin> set (columns df)) [''image_name'', ''image_path''],
                  rows = map ?enrich ?kept\<rparr>"
  have res: "dataset (process_uploaded_files e (Inr df) uploaded_images) = Some ?joined"
    by (simp add: process_ok [OF assms])
  have same: "list_all2 (\<lambda>r r'. \<forall>c. c \<noteq> ''image_name'' \<and> c \<noteq> ''image_path''
                          \<longrightarrow> map_of r' c = map_of r c) ?kept (rows ?joined)"
    by (simp add: list_all2_map2 list_all2_same update_conv')
  have name_kept: "expected_name e (?enrich r) = expected_name e r" for r
    by (simp add: expected_name_update)
  have paths: "\<forall>r' \<in> set (rows ?joined).
          expected_name e r' \<in> name ` set uploaded_images
        \<and> (\<exists>p. map_of r' ''image_path'' = Some (StrV p) \<and> suffix (expected_name e r') p)"
    by (auto simp: name_kept update_conv' suffix_os_path_join)
  from res same paths show ?thesis by blast
qed

theorem join_keeps_exactly_the_uploaded_rows_witness:
  "\<exists>joined.
      dataset (process_uploaded_files example_env (Inr example_csv) example_images) = Some joined
    \<and> list_all2 (\<lambda>r r'. \<forall>c. c \<noteq> ''image_name'' \<and> c \<noteq> ''image_path''
                          \<longrightarrow> map_of r' c = map_of r c)
        (filter (\<lambda>r. expected_name example_env r \<in> name ` set example_images) (rows example_csv))
        (rows joined)
    \<and> (\<forall>r' \<in> set (rows joined).
          expected_name example_env r' \<in> name ` set example_images
        \<and> (\<exists>p. map_of r' ''image_path'' = Some (StrV p) \<and> suffix (expected_name example_env r') p))"
proof (rule join_keeps_exactly_the_uploaded_rows)
  show "mkdtemp example_env = Inr ''/tmp/t''"
    by (simp add: example_env_def)
  show "makedirs_error example_env (os_path_join ''/tmp/t'' ''images'') = None"
    by (simp add: example_env_def)
  show "\<forall>u \<in> set example_images.
       write_error example_env (os_path_join (os_path_join ''/tmp/t'' ''images'') (name u))
         = None"
    by (simp add: example_env_def)
  show "''ad_id'' \<in> set (columns example_csv)"
    by (simp add: example_csv_def)
qed

lemmas run_simps =
  example_env_def example_images_def three_images_def
  process_uploaded_files_def os_path_join_def assign_column_def select_rows_def
  expected_name_def cell_at_def py_int_def digits.simps digit_char_def

text \<open>
  An identifier column with a blank field is a column of floats. The row whose identifier
  is held as \<^verbatim>\<open>1.0\<close> expects \<^verbatim>\<open>1.0.png\<close> and is dropped although \<^verbatim>\<open>1.png\<close>
  was uploaded; the row with the blank identifier expects \<^verbatim>\<open>nan.png\<close> and is kept.
\<close>

lemma float_ids_run:
  "dataset (process_uploaded_files example_env (Inr float_ids_csv)
      [\<lparr>name = ''1.png'', buffer = ''x''\<rparr>, \<lparr>name = ''nan.png'', buffer = ''y''\<rparr>])
   = Some \<lparr>columns = [''ad_id'', ''pagename'', ''image_name'', ''image_path''],
           rows = [[(''ad_id'', NaN), (''pagename'', StrV ''B''),
                    (''image_name'', StrV ''nan.png''),
                    (''image_path'', StrV ''/tmp/t/images/nan.png'')]]\<rparr>"
  by (simp add: float_ids_csv_def run_simps)













section \<open>Properties of the distribution table\<close>

lemma set_sorted_unique [simp]: "set (sorted_unique xs) = set xs"
  by (simp add: sorted_unique_def)

lemma distinct_sorted_unique [simp]: "distinct (sorted_unique xs)"
  by (simp add: sorted_unique_def)





















lemma fst_renamed [simp]: "fst (renamed e r) = fst r"
  by (simp add: renamed_def)

lemma fst_table_row [simp]: "fst (table_row df g) = g"
  by (simp add: table_row_def)
















text \<open>The two example datasets are what the join returns for their CSVs.\<close>

lemma blank_cluster_run:
  "dataset (process_uploaded_files example_env (Inr blank_cluster_csv) example_images)
     = Some blank_cluster_joined"
  by (simp add: blank_cluster_csv_def blank_cluster_joined_def run_simps)

lemma total_cluster_run:
  "dataset (process_uploaded_files example_env (Inr total_cluster_csv) three_images)
     = Some total_cluster_joined"
  by (simp add: total_cluster_csv_def total_cluster_joined_def run_simps)












section \<open>Properties of the views\<close>






lemma py_eq_NaN [simp]: "py_eq NaN b = False" "py_eq a NaN = False"
  by (cases b; simp) (cases a; simp)





end
